theory Spec2Isabelle
  imports Complex_Main
begin

section \<open>Python values used by the tracker\<close>

text \<open>
  Exceptions are values. A call that may raise returns \<open>exn + 'a\<close> (\<open>Inl\<close> is the
  raise). Where the source mutates a dict or an object before the raise, the function
  returns the mutated state together with \<open>exn option\<close>.
\<close>

datatype exn =
    AttributeError string string
  | KeyError string
  | QueueFull
  | Exception string

subsection \<open>Strings\<close>

text \<open>
  \<open>str.lower\<close>, \<open>str.upper\<close>, the substring test \<open>a in b\<close>, \<open>str.replace\<close> of one
  character by another and \<open>str.title\<close>, on ASCII text: a character outside
  \<open>A-Z\<close>/\<open>a-z\<close> is uncased and maps to itself.
\<close>

definition upper_letters :: string where
  "upper_letters = ''ABCDEFGHIJKLMNOPQRSTUVWXYZ''"

definition lower_letters :: string where
  "lower_letters = ''abcdefghijklmnopqrstuvwxyz''"

definition lower_char :: "char \<Rightarrow> char" where
  "lower_char c = (case map_of (zip upper_letters lower_letters) c of Some l \<Rightarrow> l | None \<Rightarrow> c)"

definition upper_char :: "char \<Rightarrow> char" where
  "upper_char c = (case map_of (zip lower_letters upper_letters) c of Some u \<Rightarrow> u | None \<Rightarrow> c)"

definition lower :: "string \<Rightarrow> string" where
  "lower s = map lower_char s"

definition is_cased :: "char \<Rightarrow> bool" where
  "is_cased c = (c \<in> set upper_letters \<or> c \<in> set lower_letters)"

fun startswith :: "string \<Rightarrow> string \<Rightarrow> bool" where
  "startswith s [] = True"
| "startswith [] (p # ps) = False"
| "startswith (c # cs) (p # ps) = (c = p \<and> startswith cs ps)"

text \<open>\<open>contains sub s\<close> is Python's \<open>sub in s\<close>.\<close>

fun contains :: "string \<Rightarrow> string \<Rightarrow> bool" where
  "contains sub [] = (sub = [])"
| "contains sub (c # cs) = (startswith (c # cs) sub \<or> contains sub cs)"

text \<open>\<open>any(x in s for x in xs)\<close>.\<close>

definition any_in :: "string list \<Rightarrow> string \<Rightarrow> bool" where
  "any_in xs s = list_ex (\<lambda>x. contains x s) xs"

definition replace_char :: "char \<Rightarrow> char \<Rightarrow> string \<Rightarrow> string" where
  "replace_char old new s = map (\<lambda>c. if c = old then new else c) s"

text \<open>
  \<open>str.title\<close>: a cased character is upper-cased when the character before it is
  uncased (or there is none) and lower-cased otherwise.
\<close>

fun title_from :: "bool \<Rightarrow> string \<Rightarrow> string" where
  "title_from prev [] = []"
| "title_from prev (c # cs) =
     (if is_cased c then (if prev then lower_char c else upper_char c) # title_from True cs
      else c # title_from False cs)"

definition title :: "string \<Rightarrow> string" where
  "title s = title_from False s"

subsection \<open>Dict lookups\<close>

text \<open>
  A key of a dict is a field of type \<open>'a option\<close>: \<open>None\<close> when the key is missing.
  \<open>dict_get k d\<close> is \<open>d.get(key, d)\<close>; \<open>truthy_str\<close> is the truth value of
  \<open>d.get(key)\<close> for a string entry.
\<close>

definition dict_get :: "'a option \<Rightarrow> 'a \<Rightarrow> 'a" where
  "dict_get k d = (case k of None \<Rightarrow> d | Some v \<Rightarrow> v)"

definition truthy_str :: "string option \<Rightarrow> bool" where
  "truthy_str k = (case k of None \<Rightarrow> False | Some v \<Rightarrow> v \<noteq> [])"

section \<open>Window information (core/monitor.py)\<close>

record WindowInfo =
  window_id :: int
  window_title :: string
  app_name :: string
  process_name :: string
  process_id :: int
  wm_class :: string
  is_browser :: bool
  url :: string

section \<open>The content classifier (analyzers/content\_classifier.py)\<close>

subsection \<open>The result dict and the analyzers' replies\<close>

text \<open>The dict \<open>result\<close> that \<open>classify\<close> builds, mutates and returns.\<close>

record classification =
  content_type :: string
  content_category :: string
  content_description :: string
  content_title :: string
  activity_type :: string
  is_productive :: bool
  productivity_score :: real
  detection_method :: string
  confidence :: real
  nsfw_score :: real
  is_nsfw :: bool
  extracted_text :: string

definition initial_result :: classification where
  "initial_result = \<lparr>
     content_type = ''unknown'',
     content_category = '''',
     content_description = '''',
     content_title = '''',
     activity_type = ''neutral'',
     is_productive = False,
     productivity_score = 0,
     detection_method = ''rules'',
     confidence = 0,
     nsfw_score = 0,
     is_nsfw = False,
     extracted_text = '''' \<rparr>"

text \<open>The keys of the analyzers' result dicts that \<open>classify\<close> reads.\<close>

record url_result =
  url_website :: "string option"
  url_content_type :: "string option"
  url_activity :: "string option"
  url_other_keys :: bool

record ocr_result =
  programming_language :: "string option"
  content_suggestions :: "string list option"

record img_result =
  layout_type :: "string option"

record clip_result =
  clip_classification :: "string option"
  clip_confidence :: "real option"

record nsfw_result =
  nsfw_is_nsfw :: "bool option"
  nsfw_nsfw_score :: "real option"

text \<open>A screenshot is an opaque image; \<open>None\<close> is Python's \<open>None\<close>.\<close>

type_synonym image = nat

text \<open>
  The analyzers are the classifier's collaborators: each is given by what its call
  returns or raises on the argument it receives.
\<close>

record analyzers =
  url_analyze :: "string \<Rightarrow> exn + url_result"
  ocr_extract_text :: "image \<Rightarrow> exn + string"
  ocr_analyze_text :: "string \<Rightarrow> exn + ocr_result"
  image_analyze_image :: "image \<Rightarrow> exn + img_result"
  clip_classify :: "image \<Rightarrow> exn + clip_result"
  nsfw_detect :: "image \<Rightarrow> exn + nsfw_result"

text \<open>Truth value of a dict: it has at least one key.\<close>

definition url_result_nonempty :: "url_result \<Rightarrow> bool" where
  "url_result_nonempty u =
     (if url_website u = None \<and> url_content_type u = None \<and> url_activity u = None
      then url_other_keys u else True)"

subsection \<open>Merging a stage's reply into the result\<close>

definition merge_url_result :: "classification \<Rightarrow> url_result \<Rightarrow> classification" where
  "merge_url_result result u =
     (let r1 = (if truthy_str (url_website u)
                then result\<lparr>content_type := ''browser''\<rparr> else result);
          r2 = (if truthy_str (url_content_type u)
                then r1\<lparr>content_category := the (url_content_type u)\<rparr> else r1)
      in if truthy_str (url_activity u)
         then r2\<lparr>activity_type := the (url_activity u),
                 confidence := max (confidence r2) 0.7\<rparr>
         else r2)"

definition merge_ocr_result :: "classification \<Rightarrow> ocr_result \<Rightarrow> classification" where
  "merge_ocr_result result ocr =
     (let r1 = (if truthy_str (programming_language ocr)
                then result\<lparr>content_type := ''code'',
                           content_category := ''coding_'' @ the (programming_language ocr),
                           activity_type := ''productive'',
                           confidence := max (confidence result) 0.8\<rparr>
                else result)
      in case content_suggestions ocr of
           None \<Rightarrow> r1
         | Some suggestions \<Rightarrow>
             if suggestions = [] then r1
             else if ''tutorial'' \<in> set suggestions then r1\<lparr>activity_type := ''educational''\<rparr>
             else if ''entertainment'' \<in> set suggestions
                  then r1\<lparr>activity_type := ''entertainment''\<rparr>
             else r1)"

definition merge_image_result :: "classification \<Rightarrow> img_result \<Rightarrow> classification" where
  "merge_image_result result img =
     (if layout_type img = Some ''simple''
      then (if content_type result = ''unknown''
            then result\<lparr>content_type := ''video''\<rparr> else result)
      else result)"

definition activity_map :: "(string \<times> string) list" where
  "activity_map = [
     (''tutorial'', ''educational''),
     (''coding'', ''productive''),
     (''documentary'', ''educational''),
     (''gaming'', ''gaming''),
     (''anime'', ''entertainment''),
     (''cartoon'', ''entertainment''),
     (''music_video'', ''entertainment''),
     (''movie_series'', ''entertainment''),
     (''comedy'', ''entertainment''),
     (''vlog'', ''entertainment''),
     (''live_stream'', ''entertainment''),
     (''social_feed'', ''social_media''),
     (''news'', ''news''),
     (''sports'', ''entertainment''),
     (''adult'', ''adult'')]"

text \<open>
  \<open>_merge_clip_result\<close>. The subscript \<open>clip_result['confidence']\<close> raises
  \<open>KeyError\<close> when the key is missing, after \<open>content_category\<close> was written.
\<close>

definition merge_clip_result :: "classification \<Rightarrow> clip_result \<Rightarrow> classification \<times> exn option" where
  "merge_clip_result result clip =
     (if dict_get (clip_confidence clip) 0 > confidence result
      then (let cls = dict_get (clip_classification clip) ''''
            in if cls \<noteq> ''''
               then (let r1 = result\<lparr>content_category := cls\<rparr>
                     in case clip_confidence clip of
                          None \<Rightarrow> (r1, Some (KeyError ''confidence''))
                        | Some c \<Rightarrow>
                            (let r2 = r1\<lparr>confidence := c, detection_method := ''clip''\<rparr>
                             in (r2\<lparr>activity_type :=
                                       dict_get (map_of activity_map cls) (activity_type r2)\<rparr>,
                                 None)))
               else (result, None))
      else (result, None))"

subsection \<open>The rule stage, the productivity table and the description\<close>

text \<open>The name lists of the rule stage.\<close>

definition code_editors :: "string list" where
  "code_editors = [''code'', ''sublime'', ''atom'', ''vim'', ''emacs'', ''idea'', ''pycharm'']"

definition terminals :: "string list" where
  "terminals = [''terminal'', ''konsole'', ''xterm'', ''alacritty'', ''kitty'']"

definition video_players :: "string list" where
  "video_players = [''vlc'', ''mpv'', ''totem'', ''celluloid'']"

definition tutorial_words :: "string list" where
  "tutorial_words = [''tutorial'', ''learn'', ''course'', ''how to'']"

definition social_sites :: "string list" where
  "social_sites = [''facebook'', ''twitter'', ''instagram'', ''reddit'']"

definition apply_rules :: "classification \<Rightarrow> string \<Rightarrow> string \<Rightarrow> bool \<Rightarrow> classification" where
  "apply_rules result app_nm win_title is_brows =
     (let app_lower = (if app_nm \<noteq> [] then lower app_nm else '''');
          title_lower = (if win_title \<noteq> [] then lower win_title else '''')
      in if any_in code_editors app_lower
         then result\<lparr>content_type := ''code'', activity_type := ''productive'',
                    confidence := max (confidence result) 0.9\<rparr>
         else if any_in terminals app_lower
         then result\<lparr>content_type := ''terminal'', activity_type := ''productive'',
                    confidence := max (confidence result) 0.85\<rparr>
         else if any_in video_players app_lower
         then result\<lparr>content_type := ''video'', activity_type := ''entertainment'',
                    confidence := max (confidence result) 0.8\<rparr>
         else if is_brows
         then (if contains ''youtube'' title_lower
               then (let r1 = result\<lparr>content_type := ''video'', content_category := ''youtube''\<rparr>
                     in if any_in tutorial_words title_lower
                        then r1\<lparr>activity_type := ''educational''\<rparr>
                        else r1\<lparr>activity_type := ''entertainment''\<rparr>)
               else if contains ''github'' title_lower
               then result\<lparr>content_type := ''code'', activity_type := ''productive''\<rparr>
               else if any_in social_sites title_lower
               then result\<lparr>content_type := ''social_feed'', activity_type := ''social_media''\<rparr>
               else result)
         else result)"

definition scores :: "(string \<times> real) list" where
  "scores = [
     (''productive'', 1.0),
     (''educational'', 0.8),
     (''neutral'', 0.0),
     (''news'', -0.1),
     (''shopping'', -0.2),
     (''entertainment'', -0.3),
     (''social_media'', -0.4),
     (''gaming'', -0.3),
     (''adult'', -1.0)]"

definition calculate_productivity :: "string \<Rightarrow> real" where
  "calculate_productivity act = dict_get (map_of scores act) 0.0"

definition generate_description :: "classification \<Rightarrow> string \<Rightarrow> string \<Rightarrow> string" where
  "generate_description result app_nm win_title =
     (let act = activity_type result; cat = content_category result
      in if act = ''productive''
         then (if contains ''code'' cat then ''Coding in '' @ app_nm else ''Working in '' @ app_nm)
         else if act = ''educational''
         then ''Learning: '' @ title (replace_char (CHR ''_'') (CHR '' '') cat)
         else if act = ''entertainment''
         then (if cat \<noteq> [] then ''Watching: '' @ title (replace_char (CHR ''_'') (CHR '' '') cat)
               else ''Entertainment in '' @ app_nm)
         else if act = ''social_media'' then ''Browsing social media''
         else if act = ''gaming'' then ''Playing game''
         else (if app_nm \<noteq> [] then ''Using '' @ app_nm else ''Unknown activity''))"

subsection \<open>The pipeline\<close>

text \<open>
  Stages 1 to 3 run directly under the outer \<open>try\<close> of \<open>classify\<close>: an exception
  of the analyzer call leaves the stage with the result as mutated so far.
\<close>

definition stage_url :: "analyzers \<Rightarrow> string \<Rightarrow> classification \<Rightarrow> classification \<times> exn option" where
  "stage_url an u result =
     (if u \<noteq> []
      then (case url_analyze an u of
              Inl e \<Rightarrow> (result, Some e)
            | Inr ur \<Rightarrow> (if url_result_nonempty ur then merge_url_result result ur else result,
                        None))
      else (result, None))"

definition stage_ocr :: "analyzers \<Rightarrow> image option \<Rightarrow> classification \<Rightarrow> classification \<times> exn option" where
  "stage_ocr an screenshot result =
     (case screenshot of
        None \<Rightarrow> (result, None)
      | Some img \<Rightarrow>
          (case ocr_extract_text an img of
             Inl e \<Rightarrow> (result, Some e)
           | Inr ocr_text \<Rightarrow>
               if ocr_text \<noteq> []
               then (let r1 = result\<lparr>extracted_text := take 500 ocr_text\<rparr>
                     in case ocr_analyze_text an ocr_text of
                          Inl e \<Rightarrow> (r1, Some e)
                        | Inr ocr \<Rightarrow> (merge_ocr_result r1 ocr, None))
               else (result, None)))"

definition stage_image :: "analyzers \<Rightarrow> image option \<Rightarrow> classification \<Rightarrow> classification \<times> exn option" where
  "stage_image an screenshot result =
     (case screenshot of
        None \<Rightarrow> (result, None)
      | Some img \<Rightarrow>
          (case image_analyze_image an img of
             Inl e \<Rightarrow> (result, Some e)
           | Inr ir \<Rightarrow> (merge_image_result result ir, None)))"

text \<open>
  Stages 4 and 5 have a \<open>try\<close> of their own, whose handler only logs: the stage
  returns the result as it is when the exception arrives.
\<close>

text \<open>
  The body of the \<open>try\<close> of stage 4 once the analyzer has replied: the test against
  0.3 and the merge. A \<open>KeyError\<close> of the merge is swallowed by the handler, the
  write made before it stays.
\<close>

definition merge_clip_if_confident :: "classification \<Rightarrow> clip_result \<Rightarrow> classification" where
  "merge_clip_if_confident result clip =
     (if dict_get (clip_confidence clip) 0 > 0.3
      then fst (merge_clip_result result clip)
      else result)"

definition stage_clip :: "analyzers \<Rightarrow> image option \<Rightarrow> classification \<Rightarrow> classification" where
  "stage_clip an screenshot result =
     (case screenshot of
        None \<Rightarrow> result
      | Some img \<Rightarrow>
          (case clip_classify an img of
             Inl e \<Rightarrow> result
           | Inr clip \<Rightarrow> merge_clip_if_confident result clip))"

definition stage_nsfw :: "analyzers \<Rightarrow> image option \<Rightarrow> classification \<Rightarrow> classification" where
  "stage_nsfw an screenshot result =
     (case screenshot of
        None \<Rightarrow> result
      | Some img \<Rightarrow>
          (case nsfw_detect an img of
             Inl e \<Rightarrow> result
           | Inr n \<Rightarrow>
               (let r1 = result\<lparr>nsfw_score := dict_get (nsfw_nsfw_score n) 0.0\<rparr>;
                    r2 = r1\<lparr>is_nsfw := dict_get (nsfw_is_nsfw n) False\<rparr>
                in if is_nsfw r2
                   then r2\<lparr>activity_type := ''adult'', content_category := ''adult_content''\<rparr>
                   else r2)))"

definition stages_1_3 :: "analyzers \<Rightarrow> image option \<Rightarrow> string \<Rightarrow> classification \<Rightarrow> classification \<times> exn option" where
  "stages_1_3 an screenshot u result =
     (case stage_url an u result of
        (r1, Some e) \<Rightarrow> (r1, Some e)
      | (r1, None) \<Rightarrow>
          (case stage_ocr an screenshot r1 of
             (r2, Some e) \<Rightarrow> (r2, Some e)
           | (r2, None) \<Rightarrow> stage_image an screenshot r2))"

text \<open>The last steps of \<open>classify\<close>: the score, the flag and the description.\<close>

definition finish :: "classification \<Rightarrow> string \<Rightarrow> string \<Rightarrow> classification" where
  "finish result app_nm win_title =
     (let r1 = result\<lparr>productivity_score := calculate_productivity (activity_type result)\<rparr>;
          r2 = r1\<lparr>is_productive := (productivity_score r1 > 0)\<rparr>
      in if content_description r2 = []
         then r2\<lparr>content_description := generate_description r2 app_nm win_title\<rparr>
         else r2)"

text \<open>
  \<open>classify(screenshot, window_info)\<close>. The handler of the outer \<open>try\<close> logs the
  exception and falls through to \<open>return result\<close>.
\<close>

definition classify :: "analyzers \<Rightarrow> image option \<Rightarrow> WindowInfo option \<Rightarrow> classification" where
  "classify an screenshot window_info =
     (let app_nm = (case window_info of None \<Rightarrow> [] | Some w \<Rightarrow> app_name w);
          win_title = (case window_info of None \<Rightarrow> [] | Some w \<Rightarrow> window_title w);
          u = (case window_info of None \<Rightarrow> [] | Some w \<Rightarrow> url w);
          is_brows = (case window_info of None \<Rightarrow> False | Some w \<Rightarrow> is_browser w)
      in case stages_1_3 an screenshot u initial_result of
           (r3, Some e) \<Rightarrow> r3
         | (r3, None) \<Rightarrow>
             (let r4 = stage_clip an screenshot r3;
                  r5 = stage_nsfw an screenshot r4;
                  r6 = apply_rules r5 app_nm win_title is_brows
              in finish r6 app_nm win_title))"

text \<open>Whether an exception reaches the outer handler of \<open>classify\<close>.\<close>

definition classify_failed :: "analyzers \<Rightarrow> image option \<Rightarrow> WindowInfo option \<Rightarrow> bool" where
  "classify_failed an screenshot window_info =
     (snd (stages_1_3 an screenshot
            (case window_info of None \<Rightarrow> [] | Some w \<Rightarrow> url w) initial_result) \<noteq> None)"

text \<open>
  The analyzers as src/ has them. \<open>URLAnalyzer.analyze\<close>, \<open>OCRAnalyzer.extract_text\<close>,
  \<open>OCRAnalyzer.analyze_text\<close> and \<open>ImageAnalyzer.analyze_image\<close> catch the exceptions
  of their own library calls and return on every argument: a failed OCR is the empty
  text, a failed layout analysis a reply without \<open>layout_type\<close>. The replies of the
  CLIP and NSFW analyzers, which \<open>classify\<close> guards itself, are left open.
\<close>

definition guarded_analyzers ::
  "(string \<Rightarrow> url_result) \<Rightarrow> (image \<Rightarrow> string) \<Rightarrow> (string \<Rightarrow> ocr_result) \<Rightarrow>
   (image \<Rightarrow> img_result) \<Rightarrow> (image \<Rightarrow> exn + clip_result) \<Rightarrow> (image \<Rightarrow> exn + nsfw_result) \<Rightarrow>
   analyzers" where
  "guarded_analyzers ua et ta ia clip nsfw = \<lparr>
     url_analyze = (\<lambda>u. Inr (ua u)),
     ocr_extract_text = (\<lambda>img. Inr (et img)),
     ocr_analyze_text = (\<lambda>t. Inr (ta t)),
     image_analyze_image = (\<lambda>img. Inr (ia img)),
     clip_classify = clip,
     nsfw_detect = nsfw \<rparr>"

section \<open>The daemon (core/daemon.py)\<close>

subsection \<open>Configuration (utils/config.py)\<close>

record config =
  screenshot_interval :: int
  skip_unchanged :: bool
  excluded_apps :: "string list"
  excluded_title_keywords :: "string list"

definition is_app_excluded :: "config \<Rightarrow> string \<Rightarrow> bool" where
  "is_app_excluded cfg app_nm = list_ex (\<lambda>exc. contains (lower exc) (lower app_nm)) (excluded_apps cfg)"

definition is_title_excluded :: "config \<Rightarrow> string \<Rightarrow> bool" where
  "is_title_excluded cfg ttl =
     (let title_lower = lower ttl
      in list_ex (\<lambda>kw. contains (lower kw) title_lower) (excluded_title_keywords cfg))"

subsection \<open>The window monitor (core/monitor.py)\<close>

text \<open>
  The attributes of a \<open>WindowMonitor\<close> instance: the class attribute, the methods the
  class defines, and the instance attributes that \<open>__init__\<close> sets.
\<close>

definition WindowMonitor_attributes :: "string list" where
  "WindowMonitor_attributes = [
     ''BROWSER_NAMES'',
     ''__init__'',
     ''_detect_display_server'',
     ''get_active_window'',
     ''_get_window_wayland'',
     ''_get_window_gnome'',
     ''_get_window_sway'',
     ''_get_window_hyprland'',
     ''_get_window_kde'',
     ''_get_window_x11'',
     ''_get_window_fallback'',
     ''_extract_app_from_title'',
     ''_extract_url_from_title'',
     ''is_user_idle'',
     ''close'',
     ''_display_server'',
     ''_desktop'',
     ''_last_window'']"

text \<open>
  Looking an attribute up on the monitor, as \<open>self.window_monitor.name\<close> does: Python
  raises \<open>AttributeError\<close> for a name the object does not have.
\<close>

definition monitor_getattr :: "string \<Rightarrow> exn + unit" where
  "monitor_getattr name =
     (if name \<in> set WindowMonitor_attributes then Inr ()
      else Inl (AttributeError ''WindowMonitor'' name))"

text \<open>\<open>WindowMonitor.is_user_idle(threshold=300)\<close>.\<close>

definition is_user_idle :: "int \<Rightarrow> bool" where
  "is_user_idle threshold = False"

subsection \<open>Records, state and the work queue\<close>

text \<open>
  The fields of \<open>Activity\<close> (storage/models.py) that are followed here: those the
  scheduler sets for an idle record, and the two flags.
\<close>

record Activity =
  act_timestamp :: nat
  act_app_name :: string
  act_window_title :: string
  act_content_type :: string
  act_content_description :: string
  act_activity_type :: string
  act_duration :: int
  act_is_idle :: bool
  act_is_excluded :: bool

record DaemonState =
  is_running :: bool
  is_paused :: bool
  last_capture_time :: "nat option"
  last_analysis_time :: "nat option"
  last_window :: "WindowInfo option"
  total_captures :: int
  total_analyses :: int
  errors :: int
  start_time :: "nat option"

text \<open>\<open>DaemonState()\<close>: the dataclass defaults.\<close>

definition DaemonState_new :: DaemonState where
  "DaemonState_new = \<lparr>
     is_running = False,
     is_paused = False,
     last_capture_time = None,
     last_analysis_time = None,
     last_window = None,
     total_captures = 0,
     total_analyses = 0,
     errors = 0,
     start_time = None \<rparr>"

record queue_item =
  item_window_info :: WindowInfo
  item_screenshot :: image
  item_timestamp :: nat

text \<open>
  The daemon object, with the effects its methods have on the world recorded beside
  its fields: the activities inserted into the database, the warnings logged, the
  number of calls of the screen capture and the number of times \<open>_cleanup\<close> ran.
\<close>

record daemon =
  state :: DaemonState
  analysis_queue :: "queue_item list"
  queue_maxsize :: nat
  stop_event :: bool
  database :: "Activity list"
  warnings :: "string list"
  capture_calls :: nat
  cleanup_runs :: nat

text \<open>\<open>ContentTrackerDaemon.__init__\<close>: a fresh state and \<open>queue.Queue(maxsize=100)\<close>.\<close>

definition daemon_init :: daemon where
  "daemon_init = \<lparr>
     state = DaemonState_new,
     analysis_queue = [],
     queue_maxsize = 100,
     stop_event = False,
     database = [],
     warnings = [],
     capture_calls = 0,
     cleanup_runs = 0 \<rparr>"

text \<open>\<open>Queue.put_nowait\<close>: \<open>queue.Full\<close> when a positive \<open>maxsize\<close> is reached.\<close>

definition put_nowait :: "nat \<Rightarrow> 'a list \<Rightarrow> 'a \<Rightarrow> exn + 'a list" where
  "put_nowait maxsize q x =
     (if 0 < maxsize \<and> maxsize \<le> length q then Inl QueueFull else Inr (q @ [x]))"

subsection \<open>One scheduler tick\<close>

text \<open>
  What the outside world answers during one tick: the window probe, the screen
  capture and the clock. \<open>window_changed_reply\<close> stands for the value a call of
  \<open>has_window_changed\<close> returns, for a monitor that has such a method.
\<close>

record tick_env =
  window_reply :: "WindowInfo option"
  window_changed_reply :: bool
  capture_reply :: "image option"
  clock :: nat

definition should_exclude_window :: "config \<Rightarrow> WindowInfo \<Rightarrow> bool" where
  "should_exclude_window cfg w =
     (if is_app_excluded cfg (app_name w) then True
      else if is_app_excluded cfg (process_name w) then True
      else if is_title_excluded cfg (window_title w) then True
      else False)"

definition record_idle_activity :: "config \<Rightarrow> tick_env \<Rightarrow> daemon \<Rightarrow> daemon" where
  "record_idle_activity cfg env d =
     d\<lparr>database := database d @ [\<lparr>
          act_timestamp = clock env,
          act_app_name = ''System'',
          act_window_title = ''Idle'',
          act_content_type = ''idle'',
          act_content_description = ''User is idle'',
          act_activity_type = ''idle'',
          act_duration = screenshot_interval cfg,
          act_is_idle = True,
          act_is_excluded = False \<rparr>]\<rparr>"

text \<open>\<open>_extend_last_activity\<close> only writes a debug line.\<close>

definition extend_last_activity :: "daemon \<Rightarrow> daemon" where
  "extend_last_activity d = d"

text \<open>
  The second half of \<open>_do_capture_cycle\<close>: capture, count, enqueue, remember the
  window. The exception, when there is one, comes with the daemon as mutated so far.
\<close>

definition capture_and_enqueue :: "tick_env \<Rightarrow> WindowInfo \<Rightarrow> daemon \<Rightarrow> daemon \<times> exn option" where
  "capture_and_enqueue env w d =
     (let d1 = d\<lparr>capture_calls := capture_calls d + 1\<rparr>
      in case capture_reply env of
           None \<Rightarrow> (d1\<lparr>warnings := warnings d1 @ [''Failed to capture screenshot'']\<rparr>, None)
         | Some screenshot \<Rightarrow>
             (let d2 = d1\<lparr>state := (state d1)\<lparr>
                            total_captures := total_captures (state d1) + 1,
                            last_capture_time := Some (clock env)\<rparr>\<rparr>;
                  d3 = (case put_nowait (queue_maxsize d2) (analysis_queue d2)
                               \<lparr>item_window_info = w, item_screenshot = screenshot,
                                item_timestamp = clock env\<rparr> of
                          Inl e \<Rightarrow> d2\<lparr>warnings := warnings d2 @
                                      [''Analysis queue full, dropping capture'']\<rparr>
                        | Inr q \<Rightarrow> d2\<lparr>analysis_queue := q\<rparr>)
              in case monitor_getattr ''update_last_window'' of
                   Inl e \<Rightarrow> (d3, Some e)
                 | Inr _ \<Rightarrow> (d3\<lparr>state := (state d3)\<lparr>last_window := Some w\<rparr>\<rparr>, None)))"

definition do_capture_cycle :: "config \<Rightarrow> tick_env \<Rightarrow> daemon \<Rightarrow> daemon \<times> exn option" where
  "do_capture_cycle cfg env d =
     (if is_user_idle 300 then (record_idle_activity cfg env d, None)
      else case window_reply env of
             None \<Rightarrow> (d, None)
           | Some w \<Rightarrow>
               if should_exclude_window cfg w then (d, None)
               else if skip_unchanged cfg
               then (case monitor_getattr ''has_window_changed'' of
                       Inl e \<Rightarrow> (d, Some e)
                     | Inr _ \<Rightarrow>
                         if window_changed_reply env then capture_and_enqueue env w d
                         else (extend_last_activity d, None))
               else capture_and_enqueue env w d)"

text \<open>
  One iteration of the \<open>while\<close> of \<open>_main_loop\<close>: the tick unless paused; an exception
  of the tick is caught and counted.
\<close>

definition main_loop_iteration :: "config \<Rightarrow> tick_env \<Rightarrow> daemon \<Rightarrow> daemon" where
  "main_loop_iteration cfg env d =
     (if is_paused (state d) then d
      else case do_capture_cycle cfg env d of
             (d', None) \<Rightarrow> d'
           | (d', Some e) \<Rightarrow> d'\<lparr>state := (state d')\<lparr>errors := errors (state d') + 1\<rparr>\<rparr>)"

text \<open>
  \<open>_main_loop\<close> over the answers of the first iterations: it leaves the loop when
  \<open>is_running\<close> is false or the stop event is set.
\<close>

fun main_loop :: "config \<Rightarrow> tick_env list \<Rightarrow> daemon \<Rightarrow> daemon" where
  "main_loop cfg [] d = d"
| "main_loop cfg (env # envs) d =
     (if is_running (state d) \<and> \<not> stop_event d
      then main_loop cfg envs (main_loop_iteration cfg env d)
      else d)"

subsection \<open>The analysis worker\<close>

text \<open>
  What the outside world answers during one iteration of \<open>_analysis_worker\<close>: the
  classifier the daemon holds (\<open>None\<close> when \<open>_init_content_classifier\<close> could not
  build it), the exception of \<open>save_screenshot\<close> (for a configuration that saves
  screenshots and a save that raises), the exception of \<open>insert_activity\<close>, the
  exception of the activity callback, and the clock. \<open>None\<close> is a call that returns,
  or one that is not made.
\<close>

record work_env =
  content_classifier :: "analyzers option"
  save_screenshot_reply :: "exn option"
  insert_reply :: "exn option"
  callback_reply :: "exn option"
  work_clock :: nat

definition office_apps :: "string list" where
  "office_apps = [''libreoffice'', ''word'', ''excel'', ''writer'', ''calc'']"

text \<open>\<open>_basic_classify\<close>, on the fields of \<open>Activity\<close> that are followed here.\<close>

definition basic_classify :: "Activity \<Rightarrow> WindowInfo \<Rightarrow> Activity" where
  "basic_classify activity w =
     (let app_lower = lower (app_name w);
          title_lower = lower (window_title w)
      in if is_browser w
         then (let a1 = activity\<lparr>act_content_type := ''browser'', act_activity_type := ''neutral''\<rparr>
               in if contains ''youtube'' title_lower \<or> contains ''youtube'' (url w)
                  then a1\<lparr>act_activity_type := ''entertainment'',
                          act_content_description := ''Watching: '' @ take 50 (window_title w)\<rparr>
                  else if contains ''github'' title_lower \<or> contains ''github'' (url w)
                  then a1\<lparr>act_activity_type := ''productive''\<rparr>
                  else if any_in social_sites title_lower
                  then a1\<lparr>act_activity_type := ''social_media''\<rparr>
                  else a1\<lparr>act_content_description := ''Browsing: '' @ take 50 (window_title w)\<rparr>)
         else if any_in code_editors app_lower
         then activity\<lparr>act_content_type := ''code'', act_activity_type := ''productive'',
                      act_content_description := ''Coding in '' @ app_name w\<rparr>
         else if any_in terminals app_lower
         then activity\<lparr>act_content_type := ''terminal'', act_activity_type := ''productive'',
                      act_content_description := ''Using terminal''\<rparr>
         else if any_in video_players app_lower
         then activity\<lparr>act_content_type := ''video'', act_activity_type := ''entertainment'',
                      act_content_description := ''Watching: '' @ take 50 (window_title w)\<rparr>
         else if any_in office_apps app_lower
         then activity\<lparr>act_content_type := ''document'', act_activity_type := ''productive'',
                      act_content_description :=
                        ''Working on document: '' @ take 50 (window_title w)\<rparr>
         else activity\<lparr>act_content_type := ''unknown'', act_activity_type := ''neutral'',
                      act_content_description := ''Using '' @ app_name w\<rparr>)"

text \<open>
  \<open>_analyze_content\<close>. \<open>classify\<close> never raises, so the fallback of the \<open>try\<close> around it
  is not reached. The description is read under the key \<open>description\<close>, which the
  result of \<open>classify\<close> does not have: \<open>get\<close> returns its default.
\<close>

definition analyze_content :: "config \<Rightarrow> work_env \<Rightarrow> queue_item \<Rightarrow> exn + Activity" where
  "analyze_content cfg wenv item =
     (let w = item_window_info item;
          activity = \<lparr>
            act_timestamp = item_timestamp item,
            act_app_name = app_name w,
            act_window_title = window_title w,
            act_content_type = ''unknown'',
            act_content_description = '''',
            act_activity_type = ''unknown'',
            act_duration = screenshot_interval cfg,
            act_is_idle = False,
            act_is_excluded = False \<rparr>;
          classified =
            (case content_classifier wenv of
               None \<Rightarrow> basic_classify activity w
             | Some an \<Rightarrow>
                 (let classification = classify an (Some (item_screenshot item)) (Some w)
                  in activity\<lparr>
                       act_content_type := content_type classification,
                       act_content_description := dict_get None '''',
                       act_activity_type := activity_type classification\<rparr>))
      in case save_screenshot_reply wenv of
           Some e \<Rightarrow> Inl e
         | None \<Rightarrow> Inr classified)"

text \<open>
  One iteration of the \<open>while\<close> of \<open>_analysis_worker\<close>: an empty queue ends the
  iteration (\<open>queue.Empty\<close> after the timeout); otherwise the item is taken, analysed
  and inserted, and the analysis is counted. An exception is caught and counted, with
  what was written before it left in place.
\<close>

definition analysis_worker_iteration :: "config \<Rightarrow> work_env \<Rightarrow> daemon \<Rightarrow> daemon" where
  "analysis_worker_iteration cfg wenv d =
     (case analysis_queue d of
        [] \<Rightarrow> d
      | item # rest \<Rightarrow>
          (let d1 = d\<lparr>analysis_queue := rest\<rparr>
           in case analyze_content cfg wenv item of
                Inl e \<Rightarrow> d1\<lparr>state := (state d1)\<lparr>errors := errors (state d1) + 1\<rparr>\<rparr>
              | Inr activity \<Rightarrow>
                  (case insert_reply wenv of
                     Some e \<Rightarrow> d1\<lparr>state := (state d1)\<lparr>errors := errors (state d1) + 1\<rparr>\<rparr>
                   | None \<Rightarrow>
                       (let d2 = d1\<lparr>database := database d1 @ [activity],
                                     state := (state d1)\<lparr>
                                       total_analyses := total_analyses (state d1) + 1,
                                       last_analysis_time := Some (work_clock wenv)\<rparr>\<rparr>
                        in case callback_reply wenv of
                             Some e \<Rightarrow> d2\<lparr>state := (state d2)\<lparr>errors := errors (state d2) + 1\<rparr>\<rparr>
                           | None \<Rightarrow> d2))))"

text \<open>
  The two loops side by side: each element of the list is one iteration of the main
  loop or of the worker, in the order in which they happen. Both loops test
  \<open>is_running\<close> and the stop event before every iteration.
\<close>

datatype event = Tick tick_env | Work work_env

fun run :: "config \<Rightarrow> event list \<Rightarrow> daemon \<Rightarrow> daemon" where
  "run cfg [] d = d"
| "run cfg (Tick env # evs) d =
     (if is_running (state d) \<and> \<not> stop_event d
      then run cfg evs (main_loop_iteration cfg env d)
      else d)"
| "run cfg (Work wenv # evs) d =
     (if is_running (state d) \<and> \<not> stop_event d
      then run cfg evs (analysis_worker_iteration cfg wenv d)
      else d)"

subsection \<open>Lifecycle and status\<close>

text \<open>\<open>_cleanup\<close> closes the probes and the database; its run is counted.\<close>

definition cleanup :: "daemon \<Rightarrow> daemon" where
  "cleanup d = d\<lparr>cleanup_runs := cleanup_runs d + 1\<rparr>"

definition stop :: "daemon \<Rightarrow> daemon" where
  "stop d =
     (if \<not> is_running (state d) then d
      else cleanup (d\<lparr>state := (state d)\<lparr>is_running := False\<rparr>, stop_event := True\<rparr>))"

text \<open>
  \<open>start(blocking)\<close>. \<open>init_reply\<close> is the exception that \<open>_initialize_components\<close>
  raises, if any; it leaves \<open>start\<close> uncaught. After the state update \<open>start\<close> launches
  the worker thread. With \<open>blocking=False\<close> it launches the main loop in a thread of
  its own and returns at once: the iterations of the two loops come after the return.
  With \<open>blocking=True\<close>, the default, it calls \<open>_main_loop()\<close> itself, and the loop is
  left only once \<open>stop()\<close> has run, from the signal handler or from another thread:
  \<open>events\<close> are the iterations of the two loops up to then, and \<open>start\<close> returns the
  daemon as that \<open>stop()\<close> left it.
\<close>

definition start :: "config \<Rightarrow> bool \<Rightarrow> exn option \<Rightarrow> nat \<Rightarrow> event list \<Rightarrow> daemon \<Rightarrow> daemon \<times> exn option" where
  "start cfg blocking init_reply now events d =
     (if is_running (state d)
      then (d\<lparr>warnings := warnings d @ [''Daemon is already running'']\<rparr>, None)
      else case init_reply of
             Some e \<Rightarrow> (d, Some e)
           | None \<Rightarrow>
               (let d1 = d\<lparr>state := (state d)\<lparr>is_running := True, start_time := Some now\<rparr>,
                          stop_event := False\<rparr>
                in if blocking then (stop (run cfg events d1), None)
                   else (d1, None)))"

definition pause :: "daemon \<Rightarrow> daemon" where
  "pause d = d\<lparr>state := (state d)\<lparr>is_paused := True\<rparr>\<rparr>"

definition resume :: "daemon \<Rightarrow> daemon" where
  "resume d = d\<lparr>state := (state d)\<lparr>is_paused := False\<rparr>\<rparr>"

record status =
  st_is_running :: bool
  st_is_paused :: bool
  st_uptime :: int
  st_total_captures :: int
  st_total_analyses :: int
  st_errors :: int
  st_last_capture :: "nat option"
  st_last_window :: "WindowInfo option"
  st_queue_size :: nat

text \<open>\<open>DaemonState.uptime\<close>, in seconds, at clock reading \<open>now\<close>.\<close>

definition uptime :: "nat \<Rightarrow> DaemonState \<Rightarrow> int" where
  "uptime now s = (case start_time s of Some t \<Rightarrow> int now - int t | None \<Rightarrow> 0)"

definition get_status :: "nat \<Rightarrow> daemon \<Rightarrow> status" where
  "get_status now d = \<lparr>
     st_is_running = is_running (state d),
     st_is_paused = is_paused (state d),
     st_uptime = uptime now (state d),
     st_total_captures = total_captures (state d),
     st_total_analyses = total_analyses (state d),
     st_errors = errors (state d),
     st_last_capture = last_capture_time (state d),
     st_last_window = last_window (state d),
     st_queue_size = length (analysis_queue d) \<rparr>"

section \<open>Sample inputs\<close>

text \<open>The defaults of utils/config.py.\<close>

definition default_config :: config where
  "default_config = \<lparr>
     screenshot_interval = 30,
     skip_unchanged = True,
     excluded_apps = [''keepassxc'', ''bitwarden'', ''1password'', ''gnome-keyring''],
     excluded_title_keywords = [''password'', ''private'', ''incognito'', ''secret''] \<rparr>"

definition no_skip_config :: config where
  "no_skip_config = default_config\<lparr>skip_unchanged := False\<rparr>"

text \<open>
  Analyzers that find nothing: an empty dict for the URL, no text, no layout, and the
  fallback replies of the CLIP and NSFW analyzers.
\<close>

definition quiet_analyzers :: analyzers where
  "quiet_analyzers = \<lparr>
     url_analyze = (\<lambda>u. Inr \<lparr>url_website = None, url_content_type = None,
                              url_activity = None, url_other_keys = False\<rparr>),
     ocr_extract_text = (\<lambda>img. Inr []),
     ocr_analyze_text = (\<lambda>t. Inr \<lparr>programming_language = None, content_suggestions = None\<rparr>),
     image_analyze_image = (\<lambda>img. Inr \<lparr>layout_type = None\<rparr>),
     clip_classify = (\<lambda>img. Inr \<lparr>clip_classification = Some ''unknown'',
                                   clip_confidence = Some 0\<rparr>),
     nsfw_detect = (\<lambda>img. Inr \<lparr>nsfw_is_nsfw = Some False, nsfw_nsfw_score = Some 0\<rparr>) \<rparr>"

definition vscode_window :: WindowInfo where
  "vscode_window = \<lparr>
     window_id = 1, window_title = ''main.py - myproj - VS Code'', app_name = ''code'',
     process_name = ''code'', process_id = 4242, wm_class = ''Code'',
     is_browser = False, url = [] \<rparr>"

definition youtube_window :: WindowInfo where
  "youtube_window = \<lparr>
     window_id = 2, window_title = ''Night stream - YouTube - Mozilla Firefox'',
     app_name = ''Firefox'', process_name = ''firefox'', process_id = 4343,
     wm_class = ''firefox'', is_browser = True, url = ''youtube.com'' \<rparr>"

definition github_window :: WindowInfo where
  "github_window = \<lparr>
     window_id = 3, window_title = ''Pull requests - Mozilla Firefox'',
     app_name = ''Firefox'', process_name = ''firefox'', process_id = 4343,
     wm_class = ''firefox'', is_browser = True, url = ''github.com'' \<rparr>"

text \<open>What \<open>URLAnalyzer.analyze\<close> returns for the two sites, as far as it is read.\<close>

definition youtube_url_result :: url_result where
  "youtube_url_result = \<lparr>
     url_website = Some ''youtube.com'', url_content_type = Some ''video_streaming'',
     url_activity = Some ''entertainment'', url_other_keys = True \<rparr>"

definition github_url_result :: url_result where
  "github_url_result = \<lparr>
     url_website = Some ''github.com'', url_content_type = Some ''development'',
     url_activity = Some ''productive'', url_other_keys = True \<rparr>"

text \<open>The NSFW detector reports a hit on a YouTube page.\<close>

definition nsfw_hit_analyzers :: analyzers where
  "nsfw_hit_analyzers = quiet_analyzers\<lparr>
     url_analyze := (\<lambda>u. Inr youtube_url_result),
     nsfw_detect := (\<lambda>img. Inr \<lparr>nsfw_is_nsfw = Some True, nsfw_nsfw_score = Some 0.92\<rparr>) \<rparr>"

text \<open>
  GitHub in the browser, with no text found, no layout, a CLIP analyzer whose model
  cannot be loaded and raises, and the fallback reply of the NSFW detector.
\<close>

definition github_analyzers :: analyzers where
  "github_analyzers = guarded_analyzers
     (\<lambda>u. github_url_result)
     (\<lambda>img. [])
     (\<lambda>t. \<lparr>programming_language = None, content_suggestions = None\<rparr>)
     (\<lambda>img. \<lparr>layout_type = None\<rparr>)
     (\<lambda>img. Inl (Exception ''model not loaded''))
     (\<lambda>img. Inr \<lparr>nsfw_is_nsfw = Some False, nsfw_nsfw_score = Some 0\<rparr>)"


text \<open>The embedding stage of P6: 0.5 against a merged 0.9.\<close>

definition confident_result :: classification where
  "confident_result = initial_result\<lparr>activity_type := ''productive'', confidence := 0.9\<rparr>"

definition weak_clip_result :: clip_result where
  "weak_clip_result = \<lparr>clip_classification = Some ''anime'', clip_confidence = Some 0.5\<rparr>"

text \<open>A tick that sees the editor window and can take the screenshot.\<close>

definition vscode_tick :: tick_env where
  "vscode_tick = \<lparr>
     window_reply = Some vscode_window, window_changed_reply = False,
     capture_reply = Some 7, clock = 1000 \<rparr>"

text \<open>The daemon after \<open>__init__\<close> and a successful \<open>start(blocking=False)\<close>.\<close>

definition running_daemon :: daemon where
  "running_daemon = fst (start default_config False None 900 [] daemon_init)"

text \<open>One tick without the skip flag, then \<open>stop\<close>.\<close>

definition stopped_after_one_tick :: daemon where
  "stopped_after_one_tick = stop (main_loop no_skip_config [vscode_tick] running_daemon)"

text \<open>An iteration of the worker with the classifier in place and nothing failing.\<close>

definition editor_work :: work_env where
  "editor_work = \<lparr>
     content_classifier = Some quiet_analyzers, save_screenshot_reply = None,
     insert_reply = None, callback_reply = None, work_clock = 2010 \<rparr>"

section \<open>Facts about the building blocks\<close>

lemma dict_get_simps [simp]:
  "dict_get None d = d"
  "dict_get (Some v) d = v"
  by (simp_all add: dict_get_def)


lemma lower_Nil [simp]: "lower [] = []"
  by (simp add: lower_def)

subsection \<open>The embedding stage\<close>

lemma merge_clip_unchanged:
  "\<not> (0.3 < dict_get (clip_confidence clip) 0 \<and> confidence r < dict_get (clip_confidence clip) 0)
   \<Longrightarrow> merge_clip_if_confident r clip = r"
  by (auto simp: merge_clip_if_confident_def merge_clip_result_def)

lemma merge_clip_confidence_mono:
  "confidence r \<le> confidence (merge_clip_if_confident r clip)"
  by (auto simp: merge_clip_if_confident_def merge_clip_result_def Let_def split: option.splits)

lemma merge_clip_frame:
  "content_type (merge_clip_if_confident r clip) = content_type r \<and>
   content_description (merge_clip_if_confident r clip) = content_description r \<and>
   content_title (merge_clip_if_confident r clip) = content_title r \<and>
   is_productive (merge_clip_if_confident r clip) = is_productive r \<and>
   productivity_score (merge_clip_if_confident r clip) = productivity_score r \<and>
   nsfw_score (merge_clip_if_confident r clip) = nsfw_score r \<and>
   is_nsfw (merge_clip_if_confident r clip) = is_nsfw r \<and>
   extracted_text (merge_clip_if_confident r clip) = extracted_text r"
  by (auto simp: merge_clip_if_confident_def merge_clip_result_def Let_def split: option.splits)

lemma stage_clip_confidence_mono:
  "confidence r \<le> confidence (stage_clip an shot r)"
  by (auto simp: stage_clip_def merge_clip_confidence_mono split: option.splits sum.splits)

text \<open>When the embedding stage does win, it writes its own category and confidence.\<close>

lemma merge_clip_overwrites:
  assumes "clip_confidence clip = Some c" and "0.3 < c" and "confidence r < c"
    and "clip_classification clip = Some cls" and "cls \<noteq> []"
  shows "content_category (merge_clip_if_confident r clip) = cls"
    and "confidence (merge_clip_if_confident r clip) = c"
    and "detection_method (merge_clip_if_confident r clip) = ''clip''"
  using assms by (simp_all add: merge_clip_if_confident_def merge_clip_result_def Let_def)

subsection \<open>The rule stage\<close>






subsection \<open>The last steps\<close>




lemma finish_score:
  "productivity_score (finish r a t) = calculate_productivity (activity_type (finish r a t))"
  "is_productive (finish r a t) = (0 < productivity_score (finish r a t))"
  by (simp_all add: finish_def Let_def)

text \<open>The result of a run in which no exception reaches the outer handler.\<close>

lemma classify_completed:
  assumes "\<not> classify_failed an shot w"
  shows "\<exists>r. classify an shot w =
              finish (apply_rules r (case w of None \<Rightarrow> [] | Some x \<Rightarrow> app_name x)
                                    (case w of None \<Rightarrow> [] | Some x \<Rightarrow> window_title x)
                                    (case w of None \<Rightarrow> False | Some x \<Rightarrow> is_browser x))
                     (case w of None \<Rightarrow> [] | Some x \<Rightarrow> app_name x)
                     (case w of None \<Rightarrow> [] | Some x \<Rightarrow> window_title x)"
  using assms
  by (auto simp: classify_def classify_failed_def Let_def split: prod.splits option.splits)

text \<open>The stages before the outer handler never touch the score or the flag.\<close>

lemma merge_url_score:
  "productivity_score (merge_url_result r u) = productivity_score r \<and>
   is_productive (merge_url_result r u) = is_productive r"
  by (simp add: merge_url_result_def Let_def)

lemma merge_ocr_score:
  "productivity_score (merge_ocr_result r ocr) = productivity_score r \<and>
   is_productive (merge_ocr_result r ocr) = is_productive r"
  by (simp add: merge_ocr_result_def Let_def split: option.splits)

lemma merge_image_score:
  "productivity_score (merge_image_result r i) = productivity_score r \<and>
   is_productive (merge_image_result r i) = is_productive r"
  by (simp add: merge_image_result_def)

lemma stage_url_score:
  "productivity_score (fst (stage_url an u r)) = productivity_score r \<and>
   is_productive (fst (stage_url an u r)) = is_productive r"
  by (simp add: stage_url_def merge_url_score split: sum.splits)

lemma stage_ocr_score:
  "productivity_score (fst (stage_ocr an shot r)) = productivity_score r \<and>
   is_productive (fst (stage_ocr an shot r)) = is_productive r"
  by (simp add: stage_ocr_def Let_def merge_ocr_score split: option.splits sum.splits)

lemma stage_image_score:
  "productivity_score (fst (stage_image an shot r)) = productivity_score r \<and>
   is_productive (fst (stage_image an shot r)) = is_productive r"
  by (simp add: stage_image_def merge_image_score split: option.splits sum.splits)

lemma stages_1_3_score:
  "productivity_score (fst (stages_1_3 an shot u r)) = productivity_score r \<and>
   is_productive (fst (stages_1_3 an shot u r)) = is_productive r"
proof -
  obtain r1 e1 where s1: "stage_url an u r = (r1, e1)" by (cases "stage_url an u r")
  obtain r2 e2 where s2: "stage_ocr an shot r1 = (r2, e2)" by (cases "stage_ocr an shot r1")
  have k1: "productivity_score r1 = productivity_score r \<and> is_productive r1 = is_productive r"
    using stage_url_score [of an u r] s1 by simp
  have k2: "productivity_score r2 = productivity_score r1 \<and> is_productive r2 = is_productive r1"
    using stage_ocr_score [of an shot r1] s2 by simp
  show ?thesis
    using s1 s2 k1 k2 stage_image_score [of an shot r2]
    by (cases e1; cases e2) (simp_all add: stages_1_3_def)
qed

lemma classify_flag: "is_productive (classify an shot w) = (0 < productivity_score (classify an shot w))"
proof (cases "classify_failed an shot w")
  case False
  then show ?thesis
    using classify_completed [OF False] by (auto simp: finish_score)
next
  case True
  then have "classify an shot w =
      fst (stages_1_3 an shot (case w of None \<Rightarrow> [] | Some x \<Rightarrow> url x) initial_result)"
    by (auto simp: classify_def classify_failed_def Let_def split: prod.splits option.splits)
  then show ?thesis
    using stages_1_3_score [of an shot "case w of None \<Rightarrow> [] | Some x \<Rightarrow> url x" initial_result]
    by (simp add: initial_result_def)
qed

lemma calculate_productivity_table:
  "calculate_productivity act =
     (if act = ''productive'' then 1.0
      else if act = ''educational'' then 0.8
      else if act = ''neutral'' then 0.0
      else if act = ''news'' then -0.1
      else if act = ''shopping'' then -0.2
      else if act = ''entertainment'' then -0.3
      else if act = ''social_media'' then -0.4
      else if act = ''gaming'' then -0.3
      else if act = ''adult'' then -1.0
      else 0.0)"
  by (simp add: calculate_productivity_def scores_def)

subsection \<open>The scheduler and the lifecycle\<close>

lemma has_window_changed_missing:
  "monitor_getattr ''has_window_changed'' = Inl (AttributeError ''WindowMonitor'' ''has_window_changed'')"
  by code_simp

lemma update_last_window_missing:
  "monitor_getattr ''update_last_window'' = Inl (AttributeError ''WindowMonitor'' ''update_last_window'')"
  by code_simp

lemma database_iteration: "database (main_loop_iteration cfg env d) = database d"
  by (auto simp: main_loop_iteration_def do_capture_cycle_def capture_and_enqueue_def
      is_user_idle_def extend_last_activity_def Let_def put_nowait_def
      split: option.splits sum.splits prod.splits if_splits)

lemma database_main_loop: "database (main_loop cfg envs d) = database d"
  by (induction envs arbitrary: d) (auto simp: database_iteration)

text \<open>
  The bounded queue under a successful capture: a full queue is left as it is and the
  drop is logged; otherwise the item goes to the back.
\<close>

lemma enqueue_when_full:
  assumes "0 < queue_maxsize d" and "queue_maxsize d \<le> length (analysis_queue d)"
    and "capture_reply env = Some s"
  shows "analysis_queue (fst (capture_and_enqueue env w d)) = analysis_queue d"
    and "warnings (fst (capture_and_enqueue env w d)) =
           warnings d @ [''Analysis queue full, dropping capture'']"
    and "total_captures (state (fst (capture_and_enqueue env w d))) = total_captures (state d) + 1"
  using assms
  by (simp_all add: capture_and_enqueue_def put_nowait_def Let_def split: sum.splits)

lemma enqueue_when_room:
  assumes "length (analysis_queue d) < queue_maxsize d" and "capture_reply env = Some s"
  shows "analysis_queue (fst (capture_and_enqueue env w d)) =
           analysis_queue d @ [\<lparr>item_window_info = w, item_screenshot = s,
                                   item_timestamp = clock env\<rparr>]"
    and "warnings (fst (capture_and_enqueue env w d)) = warnings d"
  using assms
  by (simp_all add: capture_and_enqueue_def put_nowait_def Let_def split: sum.splits)

lemma stop_stop: "stop (stop d) = stop d"
  by (simp add: stop_def cleanup_def)

lemma stop_not_running: "\<not> is_running (state (stop d))"
  by (simp add: stop_def cleanup_def)

lemma stop_cleanup_runs:
  "cleanup_runs (stop d) = cleanup_runs d + (if is_running (state d) then 1 else 0)"
  by (simp add: stop_def cleanup_def)

text \<open>No iteration of either loop ever lowers a counter or touches the start time.\<close>

lemma main_loop_iteration_counters:
  "total_captures (state d) \<le> total_captures (state (main_loop_iteration cfg env d)) \<and>
   total_analyses (state (main_loop_iteration cfg env d)) = total_analyses (state d) \<and>
   errors (state d) \<le> errors (state (main_loop_iteration cfg env d)) \<and>
   start_time (state (main_loop_iteration cfg env d)) = start_time (state d)"
  by (auto simp: main_loop_iteration_def do_capture_cycle_def capture_and_enqueue_def
      is_user_idle_def extend_last_activity_def Let_def put_nowait_def
      split: option.splits sum.splits prod.splits if_splits)

lemma analysis_worker_iteration_counters:
  "total_captures (state (analysis_worker_iteration cfg wenv d)) = total_captures (state d) \<and>
   total_analyses (state d) \<le> total_analyses (state (analysis_worker_iteration cfg wenv d)) \<and>
   errors (state d) \<le> errors (state (analysis_worker_iteration cfg wenv d)) \<and>
   start_time (state (analysis_worker_iteration cfg wenv d)) = start_time (state d)"
  by (auto simp: analysis_worker_iteration_def Let_def
      split: list.splits option.splits sum.splits)

lemma run_counters:
  "total_captures (state d) \<le> total_captures (state (run cfg events d)) \<and>
   total_analyses (state d) \<le> total_analyses (state (run cfg events d)) \<and>
   errors (state d) \<le> errors (state (run cfg events d)) \<and>
   start_time (state (run cfg events d)) = start_time (state d)"
proof (induction cfg events d rule: run.induct)
  case (1 cfg d)
  then show ?case by simp
next
  case (2 cfg env evs d)
  show ?case
  proof (cases "is_running (state d) \<and> \<not> stop_event d")
    case True
    then show ?thesis
      using "2.IH" main_loop_iteration_counters [of d cfg env] by force
  next
    case False
    then show ?thesis by auto
  qed
next
  case (3 cfg wenv evs d)
  show ?case
  proof (cases "is_running (state d) \<and> \<not> stop_event d")
    case True
    then show ?thesis
      using "3.IH" analysis_worker_iteration_counters [of cfg wenv d] by force
  next
    case False
    then show ?thesis by auto
  qed
qed

lemma stop_counters:
  "total_captures (state (stop d)) = total_captures (state d) \<and>
   total_analyses (state (stop d)) = total_analyses (state d) \<and>
   errors (state (stop d)) = errors (state d) \<and>
   start_time (state (stop d)) = start_time (state d)"
  by (simp add: stop_def cleanup_def)

lemma start_nonblocking:
  assumes "\<not> is_running (state d)"
  shows "fst (start cfg False None now events d) =
           d\<lparr>state := (state d)\<lparr>is_running := True, start_time := Some now\<rparr>,
             stop_event := False\<rparr>"
  using assms by (simp add: start_def)

lemma start_blocking:
  assumes "\<not> is_running (state d)"
  shows "fst (start cfg True None now events d) =
           stop (run cfg events
                  (d\<lparr>state := (state d)\<lparr>is_running := True, start_time := Some now\<rparr>,
                     stop_event := False\<rparr>))"
  using assms by (simp add: start_def)

lemma start_init_fails:
  assumes "\<not> is_running (state d)"
  shows "fst (start cfg blocking (Some e) now events d) = d"
  using assms by (simp add: start_def)

text \<open>With the analyzers of src/ no exception reaches the outer handler.\<close>

lemma guarded_not_failed:
  "\<not> classify_failed (guarded_analyzers ua et ta ia clip nsfw) shot wi"
  by (simp add: classify_failed_def stages_1_3_def stage_url_def stage_ocr_def
      stage_image_def guarded_analyzers_def Let_def split: option.splits)






section \<open>The claims\<close>

text \<open>
  C1 (NSFW override). The claim: whenever the NSFW stage reports \<open>is_nsfw\<close>, the result
  of \<open>classify\<close> has \<open>activity_type = "adult"\<close> and \<open>content_category = "adult_content"\<close>,
  whatever the rule stage matches. On a Firefox window showing YouTube, with the NSFW
  detector reporting a hit, stage 5 does write the two values, and the rule stage that
  runs after it writes over both: the result keeps \<open>is_nsfw\<close> and comes back as
  entertainment on YouTube.
\<close>

theorem nsfw_override_overwritten_by_rules:
  "is_nsfw (classify nsfw_hit_analyzers (Some 7) (Some youtube_window)) \<and>
   activity_type (stage_nsfw nsfw_hit_analyzers (Some 7) initial_result) = ''adult'' \<and>
   content_category (stage_nsfw nsfw_hit_analyzers (Some 7) initial_result) = ''adult_content'' \<and>
   activity_type (classify nsfw_hit_analyzers (Some 7) (Some youtube_window)) = ''entertainment'' \<and>
   content_category (classify nsfw_hit_analyzers (Some 7) (Some youtube_window)) = ''youtube''"
  by code_simp






text \<open>
  C4 (a tick on an unchanged window is a silent no-op). The claim: with the
  skip-unchanged flag set, such a tick takes no screenshot, writes no record and raises
  no error. With the default configuration, two ticks in a row on the same editor
  window: each one asks the monitor for \<open>has_window_changed\<close>, which the class
  \<open>WindowMonitor\<close> does not define, so each raises \<open>AttributeError\<close> and the main loop
  counts it. No screenshot is taken and no record is written, and \<open>errors\<close> is 2.
\<close>

theorem unchanged_window_tick_raises:
  "snd (do_capture_cycle default_config vscode_tick running_daemon) =
     Some (AttributeError ''WindowMonitor'' ''has_window_changed'') \<and>
   errors (state (main_loop default_config [vscode_tick, vscode_tick] running_daemon)) = 2 \<and>
   capture_calls (main_loop default_config [vscode_tick, vscode_tick] running_daemon) = 0 \<and>
   database (main_loop default_config [vscode_tick, vscode_tick] running_daemon) = []"
  by code_simp

text \<open>
  C5 (a successful capture is counted, remembered and enqueued without error). The
  claim: the tick increments \<open>total_captures\<close>, records \<open>last_capture_time\<close> and
  \<open>last_window\<close>, and enqueues the item, with no error. With the skip flag off, a tick
  whose capture succeeds counts the capture, records the time and enqueues the item;
  it then asks the monitor for \<open>update_last_window\<close>, which \<open>WindowMonitor\<close> does not
  define: \<open>AttributeError\<close> is raised before \<open>last_window\<close> is written, and the main
  loop counts an error.
\<close>

theorem successful_capture_loses_last_window:
  "total_captures (state (main_loop no_skip_config [vscode_tick] running_daemon)) = 1 \<and>
   last_capture_time (state (main_loop no_skip_config [vscode_tick] running_daemon)) = Some 1000 \<and>
   length (analysis_queue (main_loop no_skip_config [vscode_tick] running_daemon)) = 1 \<and>
   snd (do_capture_cycle no_skip_config vscode_tick running_daemon) =
     Some (AttributeError ''WindowMonitor'' ''update_last_window'') \<and>
   last_window (state (main_loop no_skip_config [vscode_tick] running_daemon)) = None \<and>
   errors (state (main_loop no_skip_config [vscode_tick] running_daemon)) = 1"
  by code_simp

text \<open>
  C6 (monotonic merge of the embedding stage). For every merged result and every
  reply of the CLIP analyzer: unless the reply's confidence exceeds 0.3 and strictly
  exceeds the merged confidence, the stage returns the result unchanged; in every case
  the merged confidence does not decrease, also when the analyzer raises or there is
  no screenshot; and the stage never touches a field other than \<open>content_category\<close>,
  \<open>confidence\<close>, \<open>detection_method\<close> and \<open>activity_type\<close>.
\<close>

theorem clip_merge_monotone:
  "(\<not> (0.3 < dict_get (clip_confidence clip) 0 \<and>
        confidence r < dict_get (clip_confidence clip) 0)
      \<longrightarrow> merge_clip_if_confident r clip = r) \<and>
   confidence r \<le> confidence (merge_clip_if_confident r clip) \<and>
   confidence r \<le> confidence (stage_clip an shot r) \<and>
   content_type (merge_clip_if_confident r clip) = content_type r \<and>
   content_description (merge_clip_if_confident r clip) = content_description r \<and>
   is_productive (merge_clip_if_confident r clip) = is_productive r \<and>
   productivity_score (merge_clip_if_confident r clip) = productivity_score r \<and>
   nsfw_score (merge_clip_if_confident r clip) = nsfw_score r \<and>
   is_nsfw (merge_clip_if_confident r clip) = is_nsfw r \<and>
   extracted_text (merge_clip_if_confident r clip) = extracted_text r"
  using merge_clip_unchanged [of clip r] merge_clip_confidence_mono [of r clip]
    stage_clip_confidence_mono [of r an shot] merge_clip_frame [of r clip]
  by blast

theorem clip_merge_monotone_witness:
  "\<not> (0.3 < dict_get (clip_confidence weak_clip_result) 0 \<and>
       confidence confident_result < dict_get (clip_confidence weak_clip_result) 0) \<and>
   merge_clip_if_confident confident_result weak_clip_result = confident_result \<and>
   activity_type (merge_clip_if_confident confident_result weak_clip_result) = ''productive''"
proof -
  have h: "\<not> (0.3 < dict_get (clip_confidence weak_clip_result) 0 \<and>
       confidence confident_result < dict_get (clip_confidence weak_clip_result) 0)"
    by (simp add: weak_clip_result_def confident_result_def initial_result_def)
  have a: "activity_type confident_result = ''productive''"
    by (simp add: confident_result_def)
  show ?thesis
    using h a clip_merge_monotone [of weak_clip_result confident_result quiet_analyzers None]
    by simp
qed

text \<open>
  C7 (productivity from the table). For the analyzers of src/, whose stages 1 to 3
  return on every argument, and every reply of the CLIP and NSFW analyzers, every
  screenshot and every window: \<open>classify\<close> sets \<open>productivity_score\<close> to the table's
  weight for the final \<open>activity_type\<close> (productive 1.0, educational 0.8, neutral 0.0,
  news -0.1, shopping -0.2, entertainment -0.3, social\_media -0.4, gaming -0.3,
  adult -1.0, anything else 0.0), and \<open>is_productive\<close> is true exactly when
  \<open>productivity_score > 0\<close>.
\<close>

theorem productivity_from_table:
  "productivity_score (classify (guarded_analyzers ua et ta ia clip nsfw) shot wi) =
     calculate_productivity
       (activity_type (classify (guarded_analyzers ua et ta ia clip nsfw) shot wi)) \<and>
   is_productive (classify (guarded_analyzers ua et ta ia clip nsfw) shot wi) =
     (0 < productivity_score (classify (guarded_analyzers ua et ta ia clip nsfw) shot wi)) \<and>
   calculate_productivity act =
     (if act = ''productive'' then 1.0
      else if act = ''educational'' then 0.8
      else if act = ''neutral'' then 0.0
      else if act = ''news'' then -0.1
      else if act = ''shopping'' then -0.2
      else if act = ''entertainment'' then -0.3
      else if act = ''social_media'' then -0.4
      else if act = ''gaming'' then -0.3
      else if act = ''adult'' then -1.0
      else 0.0)"
proof -
  have "productivity_score (classify (guarded_analyzers ua et ta ia clip nsfw) shot wi) =
        calculate_productivity
          (activity_type (classify (guarded_analyzers ua et ta ia clip nsfw) shot wi))"
    using classify_completed [OF guarded_not_failed [of ua et ta ia clip nsfw shot wi]]
    by (auto simp: finish_score)
  then show ?thesis
    using classify_flag [of "guarded_analyzers ua et ta ia clip nsfw" shot wi]
      calculate_productivity_table [of act]
    by blast
qed

theorem productivity_from_table_witness:
  "activity_type (classify github_analyzers (Some 7) (Some github_window)) = ''productive'' \<and>
   productivity_score (classify github_analyzers (Some 7) (Some github_window)) = 1 \<and>
   is_productive (classify github_analyzers (Some 7) (Some github_window))"
proof -
  have a: "activity_type (classify github_analyzers (Some 7) (Some github_window)) = ''productive''"
    by code_simp
  note t = productivity_from_table
    [of "\<lambda>u. github_url_result" "\<lambda>img. []"
        "\<lambda>t. \<lparr>programming_language = None, content_suggestions = None\<rparr>"
        "\<lambda>img. \<lparr>layout_type = None\<rparr>"
        "\<lambda>img. Inl (Exception ''model not loaded'')"
        "\<lambda>img. Inr \<lparr>nsfw_is_nsfw = Some False, nsfw_nsfw_score = Some 0\<rparr>"
        "Some 7" "Some github_window" "''productive''",
      folded github_analyzers_def]
  from t a show ?thesis by simp
qed

text \<open>
  C8 (start resets the counters). As stated the claim fails: a daemon that has run
  one tick and was stopped has one capture and one error on its state; \<open>start\<close> leaves
  both there, and a blocking \<open>start\<close> that runs one more tick returns with two
  captures.
\<close>

theorem restart_keeps_counters:
  "\<not> is_running (state stopped_after_one_tick) \<and>
   total_captures (state stopped_after_one_tick) = 1 \<and>
   is_running (state (fst (start no_skip_config False None 2000 [] stopped_after_one_tick))) \<and>
   total_captures (state (fst (start no_skip_config False None 2000 [] stopped_after_one_tick))) = 1 \<and>
   errors (state (fst (start no_skip_config False None 2000 [] stopped_after_one_tick))) = 1 \<and>
   total_captures
     (state (fst (start no_skip_config True None 2000 [Tick vscode_tick] stopped_after_one_tick))) = 2"
  by code_simp

text \<open>
  C8, amended: \<open>start\<close> never resets the counters. From the stopped state, when the
  components initialise, it sets \<open>is_running\<close> and \<open>start_time\<close> and clears the stop
  event. With \<open>blocking=False\<close> it returns with \<open>total_captures\<close>, \<open>total_analyses\<close> and
  \<open>errors\<close> exactly as they were. With \<open>blocking=True\<close> it returns after the two loops
  have run and \<open>stop\<close> was called, with \<open>is_running\<close> false and every counter at least
  what it was before the call, and equal to it when the loops made no iteration. When
  the components fail to initialise the daemon is left as it was. The counters are
  zero in a newly constructed daemon, whose \<open>__init__\<close> is the only place that creates
  the state.
\<close>

theorem start_never_resets_counters:
  assumes "\<not> is_running (state d)"
  shows "total_captures (state (fst (start cfg False None now events d))) = total_captures (state d) \<and>
         total_analyses (state (fst (start cfg False None now events d))) = total_analyses (state d) \<and>
         errors (state (fst (start cfg False None now events d))) = errors (state d) \<and>
         is_running (state (fst (start cfg False None now events d))) \<and>
         start_time (state (fst (start cfg False None now events d))) = Some now \<and>
         \<not> stop_event (fst (start cfg False None now events d)) \<and>
         total_captures (state d) \<le> total_captures (state (fst (start cfg True None now events d))) \<and>
         total_analyses (state d) \<le> total_analyses (state (fst (start cfg True None now events d))) \<and>
         errors (state d) \<le> errors (state (fst (start cfg True None now events d))) \<and>
         \<not> is_running (state (fst (start cfg True None now events d))) \<and>
         start_time (state (fst (start cfg True None now events d))) = Some now \<and>
         total_captures (state (fst (start cfg True None now [] d))) = total_captures (state d) \<and>
         total_analyses (state (fst (start cfg True None now [] d))) = total_analyses (state d) \<and>
         errors (state (fst (start cfg True None now [] d))) = errors (state d) \<and>
         fst (start cfg blocking (Some e) now events d) = d \<and>
         total_captures (state daemon_init) = 0 \<and>
         total_analyses (state daemon_init) = 0 \<and>
         errors (state daemon_init) = 0"
proof -
  let ?d1 = "d\<lparr>state := (state d)\<lparr>is_running := True, start_time := Some now\<rparr>,
               stop_event := False\<rparr>"
  have nb: "fst (start cfg False None now events d) = ?d1"
    by (rule start_nonblocking [OF assms])
  have bl: "fst (start cfg True None now events d) = stop (run cfg events ?d1)"
    by (rule start_blocking [OF assms])
  have bl0: "fst (start cfg True None now [] d) = stop ?d1"
    using start_blocking [OF assms, of cfg now "[]"] by simp
  have r: "total_captures (state ?d1) \<le> total_captures (state (run cfg events ?d1)) \<and>
           total_analyses (state ?d1) \<le> total_analyses (state (run cfg events ?d1)) \<and>
           errors (state ?d1) \<le> errors (state (run cfg events ?d1)) \<and>
           start_time (state (run cfg events ?d1)) = start_time (state ?d1)"
    by (rule run_counters)
  have s: "total_captures (state (stop (run cfg events ?d1))) = total_captures (state (run cfg events ?d1)) \<and>
           total_analyses (state (stop (run cfg events ?d1))) = total_analyses (state (run cfg events ?d1)) \<and>
           errors (state (stop (run cfg events ?d1))) = errors (state (run cfg events ?d1)) \<and>
           start_time (state (stop (run cfg events ?d1))) = start_time (state (run cfg events ?d1))"
    by (rule stop_counters)
  have nr: "\<not> is_running (state (stop (run cfg events ?d1)))"
    by (rule stop_not_running)
  have part1: "total_captures (state (fst (start cfg False None now events d))) = total_captures (state d) \<and>
         total_analyses (state (fst (start cfg False None now events d))) = total_analyses (state d) \<and>
         errors (state (fst (start cfg False None now events d))) = errors (state d) \<and>
         is_running (state (fst (start cfg False None now events d))) \<and>
         start_time (state (fst (start cfg False None now events d))) = Some now \<and>
         \<not> stop_event (fst (start cfg False None now events d))"
    by (simp add: nb)
  have part2: "total_captures (state d) \<le> total_captures (state (fst (start cfg True None now events d))) \<and>
         total_analyses (state d) \<le> total_analyses (state (fst (start cfg True None now events d))) \<and>
         errors (state d) \<le> errors (state (fst (start cfg True None now events d))) \<and>
         \<not> is_running (state (fst (start cfg True None now events d))) \<and>
         start_time (state (fst (start cfg True None now events d))) = Some now"
    using r s nr by (simp add: bl)
  have part3: "total_captures (state (fst (start cfg True None now [] d))) = total_captures (state d) \<and>
         total_analyses (state (fst (start cfg True None now [] d))) = total_analyses (state d) \<and>
         errors (state (fst (start cfg True None now [] d))) = errors (state d)"
    using stop_counters [of ?d1] by (simp add: bl0)
  have part4: "fst (start cfg blocking (Some e) now events d) = d"
    by (rule start_init_fails [OF assms])
  have part5: "total_captures (state daemon_init) = 0 \<and>
         total_analyses (state daemon_init) = 0 \<and>
         errors (state daemon_init) = 0"
    by (simp add: daemon_init_def DaemonState_new_def)
  from part1 part2 part3 part4 part5 show ?thesis by blast
qed

theorem start_never_resets_counters_witness:
  "\<not> is_running (state stopped_after_one_tick) \<and>
   total_captures (state (fst (start no_skip_config False None 2000 [] stopped_after_one_tick))) =
     total_captures (state stopped_after_one_tick) \<and>
   total_captures (state stopped_after_one_tick) \<le>
     total_captures (state (fst (start no_skip_config True None 2000
        [Tick vscode_tick, Work editor_work] stopped_after_one_tick))) \<and>
   total_analyses (state (fst (start no_skip_config True None 2000
        [Tick vscode_tick, Work editor_work] stopped_after_one_tick))) = 1"
proof -
  have h: "\<not> is_running (state stopped_after_one_tick)"
    by (simp add: stopped_after_one_tick_def stop_not_running)
  have a: "total_analyses (state (fst (start no_skip_config True None 2000
        [Tick vscode_tick, Work editor_work] stopped_after_one_tick))) = 1"
    by code_simp
  note t1 = start_never_resets_counters [OF h, of no_skip_config 2000 "[]"]
  note t2 = start_never_resets_counters
    [OF h, of no_skip_config 2000 "[Tick vscode_tick, Work editor_work]"]
  from h a t1 t2 show ?thesis by blast
qed

text \<open>
  C9 (stopping twice). The second \<open>stop\<close> returns the daemon exactly as the first left
  it, so it changes no state and does not run the cleanup again: for a running daemon
  the cleanup has run once after two calls. After \<open>stop\<close>, \<open>is_running\<close> is false in the
  state and in what \<open>get_status\<close> reports.
\<close>

theorem stop_twice_is_stop_once:
  "stop (stop d) = stop d \<and>
   \<not> is_running (state (stop d)) \<and>
   \<not> st_is_running (get_status now (stop d)) \<and>
   cleanup_runs (stop (stop d)) = cleanup_runs (stop d) \<and>
   (is_running (state d) \<longrightarrow> cleanup_runs (stop (stop d)) = cleanup_runs d + 1)"
  using stop_stop [of d] stop_not_running [of d] stop_cleanup_runs [of d]
  by (simp add: get_status_def)

theorem stop_twice_is_stop_once_witness:
  "is_running (state running_daemon) \<and>
   stop (stop running_daemon) = stop running_daemon \<and>
   cleanup_runs (stop (stop running_daemon)) = 1 \<and>
   \<not> st_is_running (get_status 1500 (stop running_daemon))"
proof -
  have h: "is_running (state running_daemon)" by code_simp
  have c: "cleanup_runs running_daemon = 0" by code_simp
  show ?thesis
    using h c stop_twice_is_stop_once [of running_daemon 1500] by simp
qed

text \<open>
  C10 (the idle branch is dead). \<open>is_user_idle\<close> is false for every threshold, and the
  idle record is the only thing the scheduler ever inserts: over every sequence of
  ticks, from every daemon state and under every configuration, the main loop leaves
  the database as it found it, so no record with \<open>is_idle\<close> set comes from it.
\<close>

theorem idle_branch_unreachable:
  "\<not> is_user_idle threshold \<and>
   database (fst (do_capture_cycle cfg env d)) = database d \<and>
   database (main_loop cfg envs d) = database d \<and>
   filter act_is_idle (database (main_loop cfg envs d)) = filter act_is_idle (database d)"
proof -
  have "database (fst (do_capture_cycle cfg env d)) = database d"
    by (auto simp: do_capture_cycle_def capture_and_enqueue_def is_user_idle_def
        extend_last_activity_def Let_def put_nowait_def
        split: option.splits sum.splits)
  then show ?thesis
    by (simp add: is_user_idle_def database_main_loop)
qed

end
